theory Spec2Isabelle
  imports Complex_Main
begin

section \<open>Arithmetic of the C type float\<close>

text \<open>
  The simulation computes with the C type \<^verbatim>\<open>float\<close>. The embedding keeps that type
  abstract: it is a type variable \<open>'f\<close> of the syntactic classes \<open>plus\<close>, \<open>minus\<close>,
  \<open>times\<close>, \<open>inverse\<close> (which carries \<open>/\<close>) and \<open>ord\<close> (which carries \<open><\<close>). These
  classes give the operator symbols and assume no law at all, so a theorem proved for
  every such \<open>'f\<close> holds whatever the rounding of the four operations is. What C takes
  from the maths library or from its conversion rules comes in a record of functions:
  \<^verbatim>\<open>sqrtf\<close>, the conversion of an \<^verbatim>\<open>int\<close> to \<^verbatim>\<open>float\<close>, and the value of a decimal
  literal such as \<^verbatim>\<open>0.3f\<close>, given by the rational number the literal denotes.
\<close>

record 'f fpu =
  sqrtf :: "'f \<Rightarrow> 'f"
  float_of_int :: "int \<Rightarrow> 'f"
  float_lit :: "rat \<Rightarrow> 'f"

text \<open>
  Exact arithmetic on the reals is one instance. It serves to evaluate the definitions
  on concrete inputs and to show that the hypotheses of a theorem can be met; no
  property below is stated for it alone. Where a property needs a law of arithmetic,
  the law is a hypothesis on the arithmetic \<open>F\<close>.
\<close>

definition real_fpu :: "real fpu" where
  "real_fpu = \<lparr> sqrtf = sqrt, float_of_int = of_int, float_lit = of_rat \<rparr>"

section \<open>Constants of the program\<close>

definition SCREEN_WIDTH :: nat where "SCREEN_WIDTH = 800"
definition SCREEN_HEIGHT :: nat where "SCREEN_HEIGHT = 600"
definition GRID_WIDTH :: nat where "GRID_WIDTH = 50"
definition GRID_HEIGHT :: nat where "GRID_HEIGHT = 30"
definition PARTICLE_SPACING :: nat where "PARTICLE_SPACING = 15"

section \<open>Data model\<close>

text \<open>
  The three function-pointer types of the source. A pointer is the name of the function
  it points to; calling through it is a case distinction (\<open>call_ForceFunction\<close> and
  \<open>call_ConstraintFunction\<close> below). The energy functions are never called by the
  program; only their addresses are stored in the materials.
\<close>

datatype ForceFunction = Ptr_apply_force_cotton | Ptr_apply_force_silk | Ptr_apply_force_denim

datatype EnergyFunction = Ptr_calc_energy_cotton | Ptr_calc_energy_silk | Ptr_calc_energy_denim

datatype ConstraintFunction =
  Ptr_solve_constraint_cotton | Ptr_solve_constraint_silk | Ptr_solve_constraint_denim

record 'f Material =
  elasticity :: 'f
  mass :: 'f
  stiffness :: 'f
  damping :: 'f
  tear_distance :: 'f
  air_friction :: 'f
  bend_stiffness :: 'f
  apply_force :: ForceFunction
  calc_energy :: EnergyFunction
  solve_constraint :: ConstraintFunction

text \<open>
  \<^verbatim>\<open>Material* material\<close>: the one address the program ever stores in this field is
  that of the global \<^verbatim>\<open>current_material\<close> (in \<^verbatim>\<open>init_particles\<close>), so the pointer type
  has that one value and dereferencing it reads the global as it is at that moment.
\<close>

datatype Material_ptr = Addr_current_material

record SDL_Point =
  x :: int
  y :: int

text \<open>
  A particle. The neighbour array is never allocated by the program: the field holds
  the indices it points to, the empty list standing for \<^verbatim>\<open>NULL\<close>.
\<close>

record 'f Particle =
  x :: 'f
  y :: 'f
  old_x :: 'f
  old_y :: 'f
  vx :: 'f
  vy :: 'f
  force_x :: 'f
  force_y :: 'f
  mass :: 'f
  locked :: bool
  neighbors :: "nat list"
  num_neighbors :: int
  material :: Material_ptr

text \<open>
  A constraint points at two elements of the array \<^verbatim>\<open>particles\<close>; a pointer
  \<^verbatim>\<open>&particles[i]\<close> is the index \<open>i\<close>.
\<close>

record 'f Constraint =
  p1 :: nat
  p2 :: nat
  rest_length :: 'f
  strength :: 'f

text \<open>
  The global variables. The two arrays are stores from indices to values, so that two
  constraints that share a particle see each other's writes.
\<close>

record 'f globals =
  particles :: "nat \<Rightarrow> 'f Particle"
  constraints :: "nat \<Rightarrow> 'f Constraint"
  current_material :: "'f Material"
  mouse :: SDL_Point
  mouse_down :: bool
  right_click :: bool

fun deref_material :: "'f globals \<Rightarrow> Material_ptr \<Rightarrow> 'f Material" where
  "deref_material g Addr_current_material = current_material g"

subsection \<open>The three materials\<close>

definition COTTON :: "'f fpu \<Rightarrow> 'f Material" where
  "COTTON F = \<lparr>
     elasticity = float_lit F (3 / 10),
     Material.mass = float_lit F 1,
     stiffness = float_lit F (8 / 10),
     damping = float_lit F (99 / 100),
     tear_distance = float_lit F 25,
     air_friction = float_lit F (2 / 100),
     bend_stiffness = float_lit F (3 / 10),
     apply_force = Ptr_apply_force_cotton,
     calc_energy = Ptr_calc_energy_cotton,
     solve_constraint = Ptr_solve_constraint_cotton \<rparr>"

definition SILK :: "'f fpu \<Rightarrow> 'f Material" where
  "SILK F = \<lparr>
     elasticity = float_lit F (5 / 10),
     Material.mass = float_lit F (7 / 10),
     stiffness = float_lit F (6 / 10),
     damping = float_lit F (995 / 1000),
     tear_distance = float_lit F 20,
     air_friction = float_lit F (3 / 100),
     bend_stiffness = float_lit F (2 / 10),
     apply_force = Ptr_apply_force_silk,
     calc_energy = Ptr_calc_energy_silk,
     solve_constraint = Ptr_solve_constraint_silk \<rparr>"

definition DENIM :: "'f fpu \<Rightarrow> 'f Material" where
  "DENIM F = \<lparr>
     elasticity = float_lit F (1 / 10),
     Material.mass = float_lit F (15 / 10),
     stiffness = float_lit F (9 / 10),
     damping = float_lit F (98 / 100),
     tear_distance = float_lit F 35,
     air_friction = float_lit F (1 / 100),
     bend_stiffness = float_lit F (7 / 10),
     apply_force = Ptr_apply_force_denim,
     calc_energy = Ptr_calc_energy_denim,
     solve_constraint = Ptr_solve_constraint_denim \<rparr>"

section \<open>The physics functions\<close>

text \<open>
  Each function takes the pointers the C function takes and the global state, and
  returns the global state after the call. Statements are kept in the order of the
  source; a literal \<^verbatim>\<open>0\<close> assigned to or compared with a \<^verbatim>\<open>float\<close> is the converted
  integer.
\<close>

definition apply_force_cotton ::
  "('f::{plus,minus,times,inverse,ord}) fpu \<Rightarrow> nat \<Rightarrow> 'f \<Rightarrow> 'f globals \<Rightarrow> 'f globals" where
  "apply_force_cotton F particle_ptr dt g =
     (let p = particles g particle_ptr in
      if locked p then g
      else
        let GRAVITY = float_lit F 980;
            p = p\<lparr>force_x := float_of_int F 0\<rparr>;
            p = p\<lparr>force_y := GRAVITY * Particle.mass p\<rparr>;
            speed = sqrtf F (vx p * vx p + vy p * vy p);
            p = (if float_of_int F 0 < speed then
                   let air_force = speed * speed * air_friction (deref_material g (material p));
                       p = p\<lparr>force_x := force_x p - (vx p / speed) * air_force\<rparr>
                   in p\<lparr>force_y := force_y p - (vy p / speed) * air_force\<rparr>
                 else p);
            ax = force_x p / Particle.mass p;
            ay = force_y p / Particle.mass p;
            p = p\<lparr>vx := (Particle.x p - old_x p) / dt + ax * dt\<rparr>;
            p = p\<lparr>vy := (Particle.y p - old_y p) / dt + ay * dt\<rparr>;
            temp_x = Particle.x p;
            temp_y = Particle.y p;
            p = p\<lparr>Particle.x := Particle.x p + vx p * dt\<rparr>;
            p = p\<lparr>Particle.y := Particle.y p + vy p * dt\<rparr>;
            p = p\<lparr>old_x := temp_x\<rparr>;
            p = p\<lparr>old_y := temp_y\<rparr>
        in g\<lparr>particles := (particles g)(particle_ptr := p)\<rparr>)"

definition apply_force_silk ::
  "('f::{plus,minus,times,inverse,ord}) fpu \<Rightarrow> nat \<Rightarrow> 'f \<Rightarrow> 'f globals \<Rightarrow> 'f globals" where
  "apply_force_silk F particle_ptr dt g =
     (let g = apply_force_cotton F particle_ptr dt g;
          p = particles g particle_ptr;
          p = p\<lparr>vx := vx p * damping (deref_material g (material p))\<rparr>;
          p = p\<lparr>vy := vy p * damping (deref_material g (material p))\<rparr>
      in g\<lparr>particles := (particles g)(particle_ptr := p)\<rparr>)"

definition apply_force_denim ::
  "('f::{plus,minus,times,inverse,ord}) fpu \<Rightarrow> nat \<Rightarrow> 'f \<Rightarrow> 'f globals \<Rightarrow> 'f globals" where
  "apply_force_denim F particle_ptr dt g =
     (let g = apply_force_cotton F particle_ptr dt g;
          p = particles g particle_ptr;
          p = p\<lparr>vx := vx p * (damping (deref_material g (material p)) * float_lit F (9 / 10))\<rparr>;
          p = p\<lparr>vy := vy p * (damping (deref_material g (material p)) * float_lit F (9 / 10))\<rparr>
      in g\<lparr>particles := (particles g)(particle_ptr := p)\<rparr>)"

text \<open>
  \<^verbatim>\<open>solve_constraint_cotton\<close> reads both particles, then writes the first and then the
  second; the second write reads the store left by the first, as the C code does when
  the two pointers are equal.
\<close>

definition solve_constraint_cotton ::
  "('f::{plus,minus,times,inverse,ord}) fpu \<Rightarrow> nat \<Rightarrow> nat \<Rightarrow> 'f \<Rightarrow> 'f globals \<Rightarrow> 'f globals" where
  "solve_constraint_cotton F p1_ptr p2_ptr rest g =
     (let dx = Particle.x (particles g p2_ptr) - Particle.x (particles g p1_ptr);
          dy = Particle.y (particles g p2_ptr) - Particle.y (particles g p1_ptr);
          dist = sqrtf F (dx * dx + dy * dy)
      in if float_lit F (1 / 10000) < dist then
           let diff = (dist - rest) / dist;
               g = (if \<not> locked (particles g p1_ptr) then
                      let p = particles g p1_ptr;
                          p = p\<lparr>Particle.x := Particle.x p
                                 + dx * diff * float_lit F (1 / 2)
                                   * elasticity (deref_material g (material p))\<rparr>;
                          p = p\<lparr>Particle.y := Particle.y p
                                 + dy * diff * float_lit F (1 / 2)
                                   * elasticity (deref_material g (material p))\<rparr>
                      in g\<lparr>particles := (particles g)(p1_ptr := p)\<rparr>
                    else g)
           in (if \<not> locked (particles g p2_ptr) then
                 let p = particles g p2_ptr;
                     p = p\<lparr>Particle.x := Particle.x p
                            - dx * diff * float_lit F (1 / 2)
                              * elasticity (deref_material g (material p))\<rparr>;
                     p = p\<lparr>Particle.y := Particle.y p
                            - dy * diff * float_lit F (1 / 2)
                              * elasticity (deref_material g (material p))\<rparr>
                 in g\<lparr>particles := (particles g)(p2_ptr := p)\<rparr>
               else g)
         else g)"

definition solve_constraint_silk ::
  "('f::{plus,minus,times,inverse,ord}) fpu \<Rightarrow> nat \<Rightarrow> nat \<Rightarrow> 'f \<Rightarrow> 'f globals \<Rightarrow> 'f globals" where
  "solve_constraint_silk F p1_ptr p2_ptr rest g = solve_constraint_cotton F p1_ptr p2_ptr rest g"

definition solve_constraint_denim ::
  "('f::{plus,minus,times,inverse,ord}) fpu \<Rightarrow> nat \<Rightarrow> nat \<Rightarrow> 'f \<Rightarrow> 'f globals \<Rightarrow> 'f globals" where
  "solve_constraint_denim F p1_ptr p2_ptr rest g =
     solve_constraint_cotton F p1_ptr p2_ptr (rest * float_lit F (9 / 10)) g"

fun call_ForceFunction ::
  "('f::{plus,minus,times,inverse,ord}) fpu \<Rightarrow> ForceFunction \<Rightarrow> nat \<Rightarrow> 'f \<Rightarrow> 'f globals \<Rightarrow> 'f globals" where
  "call_ForceFunction F Ptr_apply_force_cotton particle_ptr dt g = apply_force_cotton F particle_ptr dt g"
| "call_ForceFunction F Ptr_apply_force_silk particle_ptr dt g = apply_force_silk F particle_ptr dt g"
| "call_ForceFunction F Ptr_apply_force_denim particle_ptr dt g = apply_force_denim F particle_ptr dt g"

fun call_ConstraintFunction ::
  "('f::{plus,minus,times,inverse,ord}) fpu \<Rightarrow> ConstraintFunction \<Rightarrow> nat \<Rightarrow> nat \<Rightarrow> 'f
     \<Rightarrow> 'f globals \<Rightarrow> 'f globals" where
  "call_ConstraintFunction F Ptr_solve_constraint_cotton a b rest g = solve_constraint_cotton F a b rest g"
| "call_ConstraintFunction F Ptr_solve_constraint_silk a b rest g = solve_constraint_silk F a b rest g"
| "call_ConstraintFunction F Ptr_solve_constraint_denim a b rest g = solve_constraint_denim F a b rest g"

section \<open>Initialisation of the particle grid\<close>

text \<open>
  The loop variables \<^verbatim>\<open>x\<close> and \<^verbatim>\<open>y\<close> of \<^verbatim>\<open>init_particles\<close> are \<open>ix\<close> and \<open>iy\<close> here.
  The body assigns the thirteen fields of \<^verbatim>\<open>particles[y * GRID_WIDTH + x]\<close> one after
  the other; \<^verbatim>\<open>x * PARTICLE_SPACING\<close> is a product of integers, converted when it is
  added to the \<^verbatim>\<open>float\<close>.
\<close>

definition init_particle ::
  "('f::{plus,minus,times,inverse,ord}) fpu \<Rightarrow> 'f \<Rightarrow> 'f \<Rightarrow> nat \<Rightarrow> nat \<Rightarrow> 'f globals \<Rightarrow> 'f globals" where
  "init_particle F start_x start_y iy ix g =
     (let p = particles g (iy * GRID_WIDTH + ix);
          p = p\<lparr>Particle.x := start_x + float_of_int F (int ix * int PARTICLE_SPACING)\<rparr>;
          p = p\<lparr>Particle.y := start_y + float_of_int F (int iy * int PARTICLE_SPACING)\<rparr>;
          p = p\<lparr>old_x := Particle.x p\<rparr>;
          p = p\<lparr>old_y := Particle.y p\<rparr>;
          p = p\<lparr>vy := float_of_int F 0\<rparr>;
          p = p\<lparr>vx := vy p\<rparr>;
          p = p\<lparr>force_y := float_of_int F 0\<rparr>;
          p = p\<lparr>force_x := force_y p\<rparr>;
          p = p\<lparr>Particle.mass := Material.mass (current_material g)\<rparr>;
          p = p\<lparr>material := Addr_current_material\<rparr>;
          p = p\<lparr>locked := (iy = 0)\<rparr>;
          p = p\<lparr>neighbors := []\<rparr>;
          p = p\<lparr>num_neighbors := 0\<rparr>
      in g\<lparr>particles := (particles g)(iy * GRID_WIDTH + ix := p)\<rparr>)"

function init_particles_x ::
  "('f::{plus,minus,times,inverse,ord}) fpu \<Rightarrow> 'f \<Rightarrow> 'f \<Rightarrow> nat \<Rightarrow> nat \<Rightarrow> 'f globals \<Rightarrow> 'f globals" where
  "init_particles_x F start_x start_y iy ix g =
     (if ix < GRID_WIDTH
      then init_particles_x F start_x start_y iy (ix + 1) (init_particle F start_x start_y iy ix g)
      else g)"
  by pat_completeness auto
termination
  by (relation "measure (\<lambda>(F, start_x, start_y, iy, ix, g). GRID_WIDTH - ix)") auto

function init_particles_y ::
  "('f::{plus,minus,times,inverse,ord}) fpu \<Rightarrow> 'f \<Rightarrow> 'f \<Rightarrow> nat \<Rightarrow> 'f globals \<Rightarrow> 'f globals" where
  "init_particles_y F start_x start_y iy g =
     (if iy < GRID_HEIGHT
      then init_particles_y F start_x start_y (iy + 1) (init_particles_x F start_x start_y iy 0 g)
      else g)"
  by pat_completeness auto
termination
  by (relation "measure (\<lambda>(F, start_x, start_y, iy, g). GRID_HEIGHT - iy)") auto

text \<open>
  The two start coordinates are computed in \<^verbatim>\<open>int\<close> and converted afterwards: the
  division is the integer division of C, which for these non-negative operands is
  \<open>div\<close>.
\<close>

definition init_particles ::
  "('f::{plus,minus,times,inverse,ord}) fpu \<Rightarrow> 'f globals \<Rightarrow> 'f globals" where
  "init_particles F g =
     (let start_x = float_of_int F
            ((int SCREEN_WIDTH - (int GRID_WIDTH - 1) * int PARTICLE_SPACING) div 2);
          start_y = float_of_int F
            ((int SCREEN_HEIGHT - (int GRID_HEIGHT - 1) * int PARTICLE_SPACING) div 4)
      in init_particles_y F start_x start_y 0 g)"

section \<open>Pointer interaction\<close>

definition mouse_snap ::
  "('f::{plus,minus,times,inverse,ord}) fpu \<Rightarrow> nat \<Rightarrow> 'f globals \<Rightarrow> 'f globals" where
  "mouse_snap F i g =
     (let p = particles g i;
          dx = Particle.x p - float_of_int F (SDL_Point.x (mouse g));
          dy = Particle.y p - float_of_int F (SDL_Point.y (mouse g));
          dist = sqrtf F (dx * dx + dy * dy)
      in if dist < float_lit F 20 \<and> \<not> locked p then
           let p = p\<lparr>Particle.x := float_of_int F (SDL_Point.x (mouse g))\<rparr>;
               p = p\<lparr>Particle.y := float_of_int F (SDL_Point.y (mouse g))\<rparr>;
               p = p\<lparr>old_x := float_of_int F (SDL_Point.x (mouse g))\<rparr>;
               p = p\<lparr>old_y := float_of_int F (SDL_Point.y (mouse g))\<rparr>
           in g\<lparr>particles := (particles g)(i := p)\<rparr>
         else g)"

function mouse_loop ::
  "('f::{plus,minus,times,inverse,ord}) fpu \<Rightarrow> nat \<Rightarrow> 'f globals \<Rightarrow> 'f globals" where
  "mouse_loop F i g =
     (if i < GRID_WIDTH * GRID_HEIGHT then mouse_loop F (i + 1) (mouse_snap F i g) else g)"
  by pat_completeness auto
termination
  by (relation "measure (\<lambda>(F, i, g). GRID_WIDTH * GRID_HEIGHT - i)") auto

definition handle_mouse_interaction ::
  "('f::{plus,minus,times,inverse,ord}) fpu \<Rightarrow> 'f globals \<Rightarrow> 'f globals" where
  "handle_mouse_interaction F g = (if \<not> mouse_down g then g else mouse_loop F 0 g)"

section \<open>The main loop\<close>

text \<open>
  What the windowing library delivers is input: the events polled in a frame, and the
  time delta \<^verbatim>\<open>dt\<close> that the frame computes from two clock readings.
\<close>

datatype SDL_Keycode = SDLK_1 | SDLK_2 | SDLK_3 | SDLK_other

datatype SDL_Event =
  SDL_QUIT
| SDL_MOUSEBUTTONDOWN int int
| SDL_MOUSEBUTTONUP
| SDL_MOUSEMOTION int int
| SDL_KEYDOWN SDL_Keycode
| SDL_other_event

text \<open>The body of the event loop; the flag is the local variable \<^verbatim>\<open>running\<close>.\<close>

fun handle_event :: "'f fpu \<Rightarrow> SDL_Event \<Rightarrow> 'f globals \<times> bool \<Rightarrow> 'f globals \<times> bool" where
  "handle_event F SDL_QUIT (g, running) = (g, False)"
| "handle_event F (SDL_MOUSEBUTTONDOWN bx by) (g, running) =
     (g\<lparr>mouse_down := True, mouse := \<lparr>SDL_Point.x = bx, SDL_Point.y = by\<rparr>\<rparr>, running)"
| "handle_event F SDL_MOUSEBUTTONUP (g, running) = (g\<lparr>mouse_down := False\<rparr>, running)"
| "handle_event F (SDL_MOUSEMOTION mx my) (g, running) =
     (g\<lparr>mouse := \<lparr>SDL_Point.x = mx, SDL_Point.y = my\<rparr>\<rparr>, running)"
| "handle_event F (SDL_KEYDOWN SDLK_1) (g, running) = (g\<lparr>current_material := COTTON F\<rparr>, running)"
| "handle_event F (SDL_KEYDOWN SDLK_2) (g, running) = (g\<lparr>current_material := SILK F\<rparr>, running)"
| "handle_event F (SDL_KEYDOWN SDLK_3) (g, running) = (g\<lparr>current_material := DENIM F\<rparr>, running)"
| "handle_event F (SDL_KEYDOWN SDLK_other) (g, running) = (g, running)"
| "handle_event F SDL_other_event (g, running) = (g, running)"

fun poll_events :: "'f fpu \<Rightarrow> SDL_Event list \<Rightarrow> 'f globals \<times> bool \<Rightarrow> 'f globals \<times> bool" where
  "poll_events F [] gr = gr"
| "poll_events F (ev # evs) gr = poll_events F evs (handle_event F ev gr)"

function force_loop ::
  "('f::{plus,minus,times,inverse,ord}) fpu \<Rightarrow> 'f \<Rightarrow> nat \<Rightarrow> 'f globals \<Rightarrow> 'f globals" where
  "force_loop F dt i g =
     (if i < GRID_WIDTH * GRID_HEIGHT
      then force_loop F dt (i + 1) (call_ForceFunction F (apply_force (current_material g)) i dt g)
      else g)"
  by pat_completeness auto
termination
  by (relation "measure (\<lambda>(F, dt, i, g). GRID_WIDTH * GRID_HEIGHT - i)") auto

function constraint_loop ::
  "('f::{plus,minus,times,inverse,ord}) fpu \<Rightarrow> nat \<Rightarrow> 'f globals \<Rightarrow> 'f globals" where
  "constraint_loop F i g =
     (if i < (GRID_WIDTH - 1) * GRID_HEIGHT + GRID_WIDTH * (GRID_HEIGHT - 1)
      then constraint_loop F (i + 1)
             (let c = constraints g i
              in call_ConstraintFunction F (solve_constraint (current_material g))
                   (p1 c) (p2 c) (rest_length c) g)
      else g)"
  by pat_completeness auto
termination
  by (relation "measure (\<lambda>(F, i, g).
        (GRID_WIDTH - 1) * GRID_HEIGHT + GRID_WIDTH * (GRID_HEIGHT - 1) - i)") auto

function relax_loop ::
  "('f::{plus,minus,times,inverse,ord}) fpu \<Rightarrow> nat \<Rightarrow> 'f globals \<Rightarrow> 'f globals" where
  "relax_loop F j g = (if j < 5 then relax_loop F (j + 1) (constraint_loop F 0 g) else g)"
  by pat_completeness auto
termination
  by (relation "measure (\<lambda>(F, j, g). 5 - j)") auto

text \<open>The physics part of one frame: the three loops of \<^verbatim>\<open>main\<close> in their order.\<close>

definition update_physics ::
  "('f::{plus,minus,times,inverse,ord}) fpu \<Rightarrow> 'f \<Rightarrow> 'f globals \<Rightarrow> 'f globals" where
  "update_physics F dt g =
     (let g = force_loop F dt 0 g;
          g = handle_mouse_interaction F g
      in relax_loop F 0 g)"

text \<open>
  The frames of \<^verbatim>\<open>while (running)\<close>: a frame polls its events, runs the physics, and
  the loop ends after the frame in which \<^verbatim>\<open>SDL_QUIT\<close> arrived. Rendering and the delay
  change no variable of the program.
\<close>

fun main_loop ::
  "('f::{plus,minus,times,inverse,ord}) fpu \<Rightarrow> (SDL_Event list \<times> 'f) list \<Rightarrow> 'f globals \<Rightarrow> 'f globals" where
  "main_loop F [] g = g"
| "main_loop F ((evs, dt) # frames) g =
     (let (g, running) = poll_events F evs (g, True);
          g = update_physics F dt g
      in if running then main_loop F frames g else g)"

declare init_particles_x.simps [simp del]
declare init_particles_y.simps [simp del]
declare mouse_loop.simps [simp del]
declare force_loop.simps [simp del]
declare constraint_loop.simps [simp del]
declare relax_loop.simps [simp del]

section \<open>Notions used in the statements\<close>

text \<open>
  The fields of a particle that a lock is meant to protect, with the lock flag itself:
  \<^verbatim>\<open>locked\<close>, \<^verbatim>\<open>x\<close>, \<^verbatim>\<open>y\<close>, \<^verbatim>\<open>old_x\<close>, \<^verbatim>\<open>old_y\<close>.
\<close>

definition pinned_fields :: "'f Particle \<Rightarrow> bool \<times> 'f \<times> 'f \<times> 'f \<times> 'f" where
  "pinned_fields p = (locked p, Particle.x p, Particle.y p, old_x p, old_y p)"

text \<open>
  A small concrete state over the reals, for evaluating the functions: particle 0 is
  locked at the origin, every other particle is free at \<open>(30, 0)\<close>, all at rest; every
  constraint links particles 0 and 1 with rest length 15; the material is cotton.
\<close>

definition sample_particle :: "nat \<Rightarrow> real Particle" where
  "sample_particle i = \<lparr>
     Particle.x = (if i = 0 then 0 else 30), Particle.y = 0,
     old_x = (if i = 0 then 0 else 30), old_y = 0,
     vx = 0, vy = 0, force_x = 0, force_y = 0,
     Particle.mass = 1, locked = (i = 0), neighbors = [], num_neighbors = 0,
     material = Addr_current_material \<rparr>"

definition sample_globals :: "real globals" where
  "sample_globals = \<lparr>
     particles = sample_particle,
     constraints = (\<lambda>k. \<lparr>p1 = 0, p2 = 1, rest_length = 15, strength = 8 / 10\<rparr>),
     current_material = COTTON real_fpu,
     mouse = \<lparr>SDL_Point.x = 0, SDL_Point.y = 0\<rparr>,
     mouse_down = False,
     right_click = False \<rparr>"

text \<open>A free particle in motion, with speed \<open>5\<close>.\<close>

definition moving_particle :: "real Particle" where
  "moving_particle = \<lparr>
     Particle.x = 10, Particle.y = 20, old_x = 9, old_y = 18,
     vx = 3, vy = 4, force_x = 7, force_y = 7,
     Particle.mass = 2, locked = False, neighbors = [], num_neighbors = 0,
     material = Addr_current_material \<rparr>"

text \<open>
  The particle that the body of the loops of \<^verbatim>\<open>init_particles\<close> leaves at row \<open>iy\<close>,
  column \<open>ix\<close>, given the two start coordinates and the mass read from the material.
\<close>

definition seeded_particle :: "('f::{plus,minus,times,inverse,ord}) fpu \<Rightarrow> 'f \<Rightarrow> 'f \<Rightarrow> 'f \<Rightarrow> nat \<Rightarrow> nat \<Rightarrow> 'f Particle" where
  "seeded_particle F start_x start_y m iy ix = \<lparr>
     Particle.x = start_x + float_of_int F (int ix * int PARTICLE_SPACING),
     Particle.y = start_y + float_of_int F (int iy * int PARTICLE_SPACING),
     old_x = start_x + float_of_int F (int ix * int PARTICLE_SPACING),
     old_y = start_y + float_of_int F (int iy * int PARTICLE_SPACING),
     vx = float_of_int F 0, vy = float_of_int F 0,
     force_x = float_of_int F 0, force_y = float_of_int F 0,
     Particle.mass = m, locked = (iy = 0), neighbors = [], num_neighbors = 0,
     material = Addr_current_material \<rparr>"

text \<open>
  \<^verbatim>\<open>apply_force_cotton\<close> with a record of its divisions. \<open>logged_div a b\<close> is the
  quotient \<open>a / b\<close> together with the divisor \<open>b\<close>. \<open>apply_force_cotton_traced\<close> is the
  function above, statement by statement, with each of the six divisions of the source
  (\<^verbatim>\<open>p->vx / speed\<close>, \<^verbatim>\<open>p->vy / speed\<close>, \<^verbatim>\<open>p->force_x / p->mass\<close>,
  \<^verbatim>\<open>p->force_y / p->mass\<close> and the two divisions by \<^verbatim>\<open>dt\<close>) done by \<open>logged_div\<close>, and it
  returns the state with the divisors in the order of execution. It contains no other
  division.
\<close>

definition logged_div :: "('f::inverse) \<Rightarrow> 'f \<Rightarrow> 'f \<times> 'f list" where
  "logged_div a b = (a / b, [b])"

definition apply_force_cotton_traced ::
  "('f::{plus,minus,times,inverse,ord}) fpu \<Rightarrow> nat \<Rightarrow> 'f \<Rightarrow> 'f globals \<Rightarrow> 'f globals \<times> 'f list" where
  "apply_force_cotton_traced F particle_ptr dt g =
     (let p = particles g particle_ptr in
      if locked p then (g, [])
      else
        let GRAVITY = float_lit F 980;
            p = p\<lparr>force_x := float_of_int F 0\<rparr>;
            p = p\<lparr>force_y := GRAVITY * Particle.mass p\<rparr>;
            speed = sqrtf F (vx p * vx p + vy p * vy p);
            (p, drag_divisors) =
                (if float_of_int F 0 < speed then
                   let air_force = speed * speed * air_friction (deref_material g (material p));
                       (qx, d1) = logged_div (vx p) speed;
                       p = p\<lparr>force_x := force_x p - qx * air_force\<rparr>;
                       (qy, d2) = logged_div (vy p) speed;
                       p = p\<lparr>force_y := force_y p - qy * air_force\<rparr>
                   in (p, d1 @ d2)
                 else (p, []));
            (ax, d3) = logged_div (force_x p) (Particle.mass p);
            (ay, d4) = logged_div (force_y p) (Particle.mass p);
            (qvx, d5) = logged_div (Particle.x p - old_x p) dt;
            p = p\<lparr>vx := qvx + ax * dt\<rparr>;
            (qvy, d6) = logged_div (Particle.y p - old_y p) dt;
            p = p\<lparr>vy := qvy + ay * dt\<rparr>;
            temp_x = Particle.x p;
            temp_y = Particle.y p;
            p = p\<lparr>Particle.x := Particle.x p + vx p * dt\<rparr>;
            p = p\<lparr>Particle.y := Particle.y p + vy p * dt\<rparr>;
            p = p\<lparr>old_x := temp_x\<rparr>;
            p = p\<lparr>old_y := temp_y\<rparr>
        in (g\<lparr>particles := (particles g)(particle_ptr := p)\<rparr>,
            drag_divisors @ d3 @ d4 @ d5 @ d6))"

section \<open>Properties\<close>

subsection \<open>Evaluation over the reals\<close>

lemma sqrt_25: "sqrt 25 = 5"
  using real_sqrt_abs2 [of 5] by simp

lemma sqrt_900: "sqrt 900 = 30"
  using real_sqrt_abs2 [of 30] by simp

lemma deref_material_eq: "deref_material g mp = current_material g"
  by (cases mp) simp

subsection \<open>The cotton force rule\<close>

text \<open>
  C2. On an unlocked particle, for every time delta \<open>dt\<close> (so for every \<open>dt > 0\<close>),
  \<^verbatim>\<open>apply_force_cotton\<close> does exactly this: the force becomes \<open>(0, 980 * mass)\<close>, minus,
  when the speed \<open>sqrtf (vx * vx + vy * vy)\<close> of the stored velocity is positive, the
  drag \<open>speed * speed * air_friction\<close> along \<open>(vx / speed, vy / speed)\<close>; the velocity
  becomes \<open>(current - previous) / dt + (force / mass) * dt\<close>; the position advances by
  \<open>velocity * dt\<close>; the previous position becomes the position before the call. Nothing
  else in the state changes. This holds for every arithmetic of \<^verbatim>\<open>float\<close>.
\<close>

theorem apply_force_cotton_unlocked:
  assumes "\<not> locked (particles g i)"
  shows "apply_force_cotton F i dt g =
     (let p = particles g i;
          speed = sqrtf F (vx p * vx p + vy p * vy p);
          drag = speed * speed * air_friction (deref_material g (material p));
          fx = (if float_of_int F 0 < speed
                then float_of_int F 0 - (vx p / speed) * drag
                else float_of_int F 0);
          fy = (if float_of_int F 0 < speed
                then float_lit F 980 * Particle.mass p - (vy p / speed) * drag
                else float_lit F 980 * Particle.mass p);
          new_vx = (Particle.x p - old_x p) / dt + (fx / Particle.mass p) * dt;
          new_vy = (Particle.y p - old_y p) / dt + (fy / Particle.mass p) * dt
      in g\<lparr>particles := (particles g)(i := p\<lparr>
           force_x := fx, force_y := fy,
           vx := new_vx, vy := new_vy,
           Particle.x := Particle.x p + new_vx * dt,
           Particle.y := Particle.y p + new_vy * dt,
           old_x := Particle.x p, old_y := Particle.y p\<rparr>)\<rparr>)"
  using assms by (simp add: apply_force_cotton_def Let_def)

theorem apply_force_cotton_unlocked_witness:
  "\<not> locked (particles (sample_globals\<lparr>particles := (\<lambda>i. moving_particle)\<rparr>) 3)
   \<and> particles (apply_force_cotton real_fpu 3 (1 / 10)
        (sample_globals\<lparr>particles := (\<lambda>i. moving_particle)\<rparr>)) 3
     = moving_particle\<lparr>
         force_x := - 3 / 10, force_y := 1960 - 4 / 10,
         vx := 10 - 3 / 200, vy := 20 + 98 - 4 / 200,
         Particle.x := 10 + 1 - 3 / 2000, Particle.y := 20 + 2 + 98 / 10 - 4 / 2000,
         old_x := 10, old_y := 20\<rparr>"
proof -
  let ?g = "sample_globals\<lparr>particles := (\<lambda>i. moving_particle)\<rparr>"
  have u: "\<not> locked (particles ?g 3)" by (simp add: moving_particle_def)
  show ?thesis
    using apply_force_cotton_unlocked [OF u, of real_fpu "1 / 10"] u
    by (simp add: Let_def real_fpu_def moving_particle_def sample_globals_def COTTON_def sqrt_25
        of_rat_divide)
qed

subsection \<open>The cotton constraint rule\<close>

text \<open>
  C3. For two different particles and every rest length, \<^verbatim>\<open>solve_constraint_cotton\<close>
  computes the connecting vector \<open>(dx, dy)\<close> and its length \<open>dist\<close>. If \<open>dist\<close> exceeds the
  floor \<open>0.0001\<close>, then with \<open>diff = (dist - rest) / dist\<close> each end point that is not
  locked is displaced along the connecting vector by \<open>diff * 0.5\<close> times the elasticity
  of its own material: the first by \<open>+ (dx, dy) * diff * 0.5 * elasticity\<close>, the second by
  the opposite; a locked end point is left as it is. If \<open>dist\<close> is at or below the floor
  the call returns the state unchanged. The function has no error exit. This holds for
  every arithmetic of \<^verbatim>\<open>float\<close>.
\<close>

theorem solve_constraint_cotton_rule:
  assumes "a \<noteq> b"
  shows "solve_constraint_cotton F a b rest g =
     (let pa = particles g a;
          pb = particles g b;
          dx = Particle.x pb - Particle.x pa;
          dy = Particle.y pb - Particle.y pa;
          dist = sqrtf F (dx * dx + dy * dy);
          diff = (dist - rest) / dist;
          ea = elasticity (deref_material g (material pa));
          eb = elasticity (deref_material g (material pb))
      in if float_lit F (1 / 10000) < dist then
           g\<lparr>particles := (particles g)
             (a := (if locked pa then pa
                    else pa\<lparr>Particle.x := Particle.x pa + dx * diff * float_lit F (1 / 2) * ea,
                            Particle.y := Particle.y pa + dy * diff * float_lit F (1 / 2) * ea\<rparr>),
              b := (if locked pb then pb
                    else pb\<lparr>Particle.x := Particle.x pb - dx * diff * float_lit F (1 / 2) * eb,
                            Particle.y := Particle.y pb - dy * diff * float_lit F (1 / 2) * eb\<rparr>))\<rparr>
         else g)"
  using assms by (simp add: solve_constraint_cotton_def Let_def deref_material_eq fun_upd_idem)


theorem solve_constraint_cotton_rule_witness:
  "(0::nat) \<noteq> 1
   \<and> particles (solve_constraint_cotton real_fpu 0 1 15 sample_globals)
     = sample_particle (1 := (sample_particle 1)\<lparr>Particle.x := 30 - 9 / 4\<rparr>)
   \<and> solve_constraint_cotton real_fpu 1 2 15 sample_globals = sample_globals"
proof -
  have n: "(0::nat) \<noteq> 1" "(1::nat) \<noteq> 2" by simp_all
  have a: "particles (solve_constraint_cotton real_fpu 0 1 15 sample_globals)
     = sample_particle (1 := (sample_particle 1)\<lparr>Particle.x := 30 - 9 / 4\<rparr>)"
    using solve_constraint_cotton_rule [OF n(1), of real_fpu 15 sample_globals]
    by (simp add: Let_def real_fpu_def sample_globals_def sample_particle_def COTTON_def sqrt_900
        of_rat_divide fun_eq_iff)
  have b: "solve_constraint_cotton real_fpu 1 2 15 sample_globals = sample_globals"
    using solve_constraint_cotton_rule [OF n(2), of real_fpu 15 sample_globals]
    by (simp add: Let_def real_fpu_def sample_globals_def sample_particle_def of_rat_divide)
  from n a b show ?thesis by simp
qed


subsection \<open>Locked particles\<close>

lemma apply_force_cotton_locked:
  "locked (particles g i) \<Longrightarrow> apply_force_cotton F i dt g = g"
  by (simp add: apply_force_cotton_def)

lemma apply_force_cotton_pinned:
  "locked (particles g i) \<Longrightarrow>
   pinned_fields (particles (apply_force_cotton F k dt g) i) = pinned_fields (particles g i)"
  by (auto simp add: apply_force_cotton_def pinned_fields_def Let_def)

lemma pinned_vel_update: "pinned_fields (p\<lparr>vx := a, vy := b\<rparr>) = pinned_fields p"
  by (simp add: pinned_fields_def)

lemma apply_force_silk_pinned:
  "locked (particles g i) \<Longrightarrow>
   pinned_fields (particles (apply_force_silk F k dt g) i) = pinned_fields (particles g i)"
  using apply_force_cotton_pinned [of g i F k dt]
  by (auto simp add: apply_force_silk_def Let_def pinned_vel_update)

lemma apply_force_denim_pinned:
  "locked (particles g i) \<Longrightarrow>
   pinned_fields (particles (apply_force_denim F k dt g) i) = pinned_fields (particles g i)"
  using apply_force_cotton_pinned [of g i F k dt]
  by (auto simp add: apply_force_denim_def Let_def pinned_vel_update)

lemma call_ForceFunction_pinned:
  "locked (particles g i) \<Longrightarrow>
   pinned_fields (particles (call_ForceFunction F fn k dt g) i) = pinned_fields (particles g i)"
  by (cases fn)
    (simp_all add: apply_force_cotton_pinned apply_force_silk_pinned apply_force_denim_pinned)

lemma solve_constraint_cotton_pinned:
  "locked (particles g i) \<Longrightarrow>
   pinned_fields (particles (solve_constraint_cotton F a b r g) i) = pinned_fields (particles g i)"
  by (auto simp add: solve_constraint_cotton_def pinned_fields_def Let_def)

lemma call_ConstraintFunction_pinned:
  "locked (particles g i) \<Longrightarrow>
   pinned_fields (particles (call_ConstraintFunction F fn a b r g) i)
     = pinned_fields (particles g i)"
  by (cases fn)
    (simp_all add: solve_constraint_cotton_pinned solve_constraint_silk_def
      solve_constraint_denim_def)

lemma mouse_snap_locked: "locked (particles g i) \<Longrightarrow> mouse_snap F i g = g"
  by (simp add: mouse_snap_def Let_def)

lemma mouse_snap_pinned:
  "locked (particles g i) \<Longrightarrow>
   pinned_fields (particles (mouse_snap F k g) i) = pinned_fields (particles g i)"
  by (auto simp add: mouse_snap_def pinned_fields_def Let_def)

lemma pinned_locked:
  "pinned_fields (particles g' i) = pinned_fields (particles g i) \<Longrightarrow>
   locked (particles g i) \<Longrightarrow> locked (particles g' i)"
  by (simp add: pinned_fields_def)

lemma force_loop_pinned:
  "locked (particles g i) \<Longrightarrow>
   pinned_fields (particles (force_loop F dt k g) i) = pinned_fields (particles g i)"
proof (induction F dt k g rule: force_loop.induct)
  case (1 F dt k g)
  let ?g = "call_ForceFunction F (apply_force (current_material g)) k dt g"
  have step: "pinned_fields (particles ?g i) = pinned_fields (particles g i)"
    using "1.prems" by (rule call_ForceFunction_pinned)
  show ?case
  proof (cases "k < GRID_WIDTH * GRID_HEIGHT")
    case True
    have "pinned_fields (particles (force_loop F dt (k + 1) ?g) i) = pinned_fields (particles ?g i)"
      using "1.IH" [OF True] pinned_locked [OF step "1.prems"] by simp
    with step True show ?thesis
      by (subst force_loop.simps) simp
  next
    case False
    then show ?thesis by (subst force_loop.simps) simp
  qed
qed


lemma mouse_loop_pinned:
  "locked (particles g i) \<Longrightarrow>
   pinned_fields (particles (mouse_loop F k g) i) = pinned_fields (particles g i)"
proof (induction F k g rule: mouse_loop.induct)
  case (1 F k g)
  have step: "pinned_fields (particles (mouse_snap F k g) i) = pinned_fields (particles g i)"
    using "1.prems" by (rule mouse_snap_pinned)
  show ?case
  proof (cases "k < GRID_WIDTH * GRID_HEIGHT")
    case True
    have "pinned_fields (particles (mouse_loop F (k + 1) (mouse_snap F k g)) i) = pinned_fields (particles (mouse_snap F k g) i)"
      using "1.IH" [OF True] pinned_locked [OF step "1.prems"] by simp
    with step True show ?thesis
      by (subst mouse_loop.simps) simp
  next
    case False
    then show ?thesis by (subst mouse_loop.simps) simp
  qed
qed

lemma handle_mouse_interaction_pinned:
  "locked (particles g i) \<Longrightarrow>
   pinned_fields (particles (handle_mouse_interaction F g) i) = pinned_fields (particles g i)"
  by (simp add: handle_mouse_interaction_def mouse_loop_pinned)

lemma constraint_loop_pinned:
  "locked (particles g i) \<Longrightarrow>
   pinned_fields (particles (constraint_loop F k g) i) = pinned_fields (particles g i)"
proof (induction F k g rule: constraint_loop.induct)
  case (1 F k g)
  let ?g = "call_ConstraintFunction F (solve_constraint (current_material g))
              (p1 (constraints g k)) (p2 (constraints g k)) (rest_length (constraints g k)) g"
  have step: "pinned_fields (particles ?g i) = pinned_fields (particles g i)"
    using "1.prems" by (rule call_ConstraintFunction_pinned)
  show ?case
  proof (cases "k < (GRID_WIDTH - 1) * GRID_HEIGHT + GRID_WIDTH * (GRID_HEIGHT - 1)")
    case True
    have "pinned_fields (particles (constraint_loop F (k + 1) ?g) i) = pinned_fields (particles ?g i)"
      using "1.IH" [OF True] pinned_locked [OF step "1.prems"] by (simp add: Let_def)
    with step True show ?thesis
      by (subst constraint_loop.simps) (simp add: Let_def)
  next
    case False
    then show ?thesis by (subst constraint_loop.simps) simp
  qed
qed

lemma relax_loop_pinned:
  "locked (particles g i) \<Longrightarrow>
   pinned_fields (particles (relax_loop F j g) i) = pinned_fields (particles g i)"
proof (induction F j g rule: relax_loop.induct)
  case (1 F j g)
  have step: "pinned_fields (particles (constraint_loop F 0 g) i) = pinned_fields (particles g i)"
    using "1.prems" by (rule constraint_loop_pinned)
  show ?case
  proof (cases "j < 5")
    case True
    have "pinned_fields (particles (relax_loop F (j + 1) (constraint_loop F 0 g)) i) = pinned_fields (particles (constraint_loop F 0 g) i)"
      using "1.IH" [OF True] pinned_locked [OF step "1.prems"] by simp
    with step True show ?thesis
      by (subst relax_loop.simps) simp
  next
    case False
    then show ?thesis by (subst relax_loop.simps) simp
  qed
qed

lemma update_physics_pinned:
  assumes "locked (particles g i)"
  shows "pinned_fields (particles (update_physics F dt g) i) = pinned_fields (particles g i)"
proof -
  let ?g1 = "force_loop F dt 0 g"
  let ?g2 = "handle_mouse_interaction F ?g1"
  have a: "pinned_fields (particles ?g1 i) = pinned_fields (particles g i)" using assms by (rule force_loop_pinned)
  have b: "pinned_fields (particles ?g2 i) = pinned_fields (particles ?g1 i)" using pinned_locked [OF a assms] by (rule handle_mouse_interaction_pinned)
  have l2: "locked (particles ?g2 i)" using a b assms by (simp add: pinned_fields_def)
  have c: "pinned_fields (particles (relax_loop F 0 ?g2) i) = pinned_fields (particles ?g2 i)" using l2 by (rule relax_loop_pinned)
  show ?thesis using a b c by (simp add: update_physics_def Let_def)
qed

lemma handle_event_particles: "particles (fst (handle_event F ev gr)) = particles (fst gr)"
  by (cases "(F, ev, gr)" rule: handle_event.cases) simp_all

lemma poll_events_particles: "particles (fst (poll_events F evs gr)) = particles (fst gr)"
  by (induction evs arbitrary: gr) (simp_all add: handle_event_particles)

lemma poll_events_pinned: "pinned_fields (particles (fst (poll_events F evs gr)) i) = pinned_fields (particles (fst gr) i)"
  by (simp add: pinned_fields_def poll_events_particles)

lemma main_loop_pinned:
  "locked (particles g i) \<Longrightarrow>
   pinned_fields (particles (main_loop F frames g) i) = pinned_fields (particles g i)"
proof (induction frames arbitrary: g)
  case Nil
  show ?case by simp
next
  case (Cons fr frames)
  obtain evs dt where fr: "fr = (evs, dt)" by (cases fr)
  obtain g1 running where pe: "poll_events F evs (g, True) = (g1, running)"
    by (cases "poll_events F evs (g, True)")
  have a: "pinned_fields (particles g1 i) = pinned_fields (particles g i)"
    using poll_events_pinned [of F evs "(g, True)" i] pe by simp
  have l1: "locked (particles g1 i)" using pinned_locked [OF a Cons.prems] .
  have b: "pinned_fields (particles (update_physics F dt g1) i) = pinned_fields (particles g1 i)" using l1 by (rule update_physics_pinned)
  have l2: "locked (particles (update_physics F dt g1) i)" using pinned_locked [OF b l1] .
  show ?case
    using a b Cons.IH [OF l2] by (simp add: fr pe Let_def)
qed

text \<open>
  C1. A particle whose lock flag is set keeps its position \<open>(x, y)\<close> and its previous
  position \<open>(old_x, old_y)\<close>, and stays locked, through any number of frames of the main
  loop, whatever the events, the time deltas and the materials selected on the way.
  The three reasons are part of the statement: \<^verbatim>\<open>apply_force_cotton\<close> returns at once
  on it (and the silk and denim rules built on it touch the velocity only), no
  constraint rule writes to a locked end point, and the pointer snap leaves it alone.
  This holds for every arithmetic of \<^verbatim>\<open>float\<close>, so equality is equality of the stored
  values.
\<close>

theorem locked_particle_never_moves:
  assumes "locked (particles g i)"
  shows "apply_force_cotton F i dt g = g
       \<and> pinned_fields (particles (call_ForceFunction F ff k dt g) i) = pinned_fields (particles g i)
       \<and> pinned_fields (particles (call_ConstraintFunction F cf a b rest g) i)
           = pinned_fields (particles g i)
       \<and> mouse_snap F i g = g
       \<and> pinned_fields (particles (handle_mouse_interaction F g) i) = pinned_fields (particles g i)
       \<and> pinned_fields (particles (update_physics F dt g) i) = pinned_fields (particles g i)
       \<and> pinned_fields (particles (main_loop F frames g) i) = pinned_fields (particles g i)"
  using assms
  by (simp add: apply_force_cotton_locked call_ForceFunction_pinned call_ConstraintFunction_pinned
      mouse_snap_locked handle_mouse_interaction_pinned update_physics_pinned main_loop_pinned)

theorem locked_particle_never_moves_witness:
  "locked (particles sample_globals 0)
   \<and> pinned_fields (particles (main_loop real_fpu
        [([SDL_MOUSEBUTTONDOWN 0 0, SDL_KEYDOWN SDLK_3], 1 / 60), ([], 1 / 50)] sample_globals) 0)
       = (True, 0, 0, 0, 0)"
proof -
  let ?frames = "[([SDL_MOUSEBUTTONDOWN 0 0, SDL_KEYDOWN SDLK_3], 1 / 60), ([], 1 / 50 :: real)]"
  have l: "locked (particles sample_globals 0)"
    by (simp add: sample_globals_def sample_particle_def)
  have e: "pinned_fields (particles sample_globals 0) = (True, 0, 0, 0, 0)"
    by (simp add: sample_globals_def sample_particle_def pinned_fields_def)
  have "pinned_fields (particles (main_loop real_fpu ?frames sample_globals) 0)
        = pinned_fields (particles sample_globals 0)"
    using locked_particle_never_moves [OF l, where F = real_fpu and frames = ?frames] by blast
  with l e show ?thesis by (simp only: simp_thms)
qed

subsection \<open>The order of one physics update\<close>

lemma apply_force_cotton_frame:
  "current_material (apply_force_cotton F k dt g) = current_material g"
  "constraints (apply_force_cotton F k dt g) = constraints g"
  by (simp_all add: apply_force_cotton_def Let_def)

lemma call_ForceFunction_frame:
  "current_material (call_ForceFunction F ff k dt g) = current_material g"
  "constraints (call_ForceFunction F ff k dt g) = constraints g"
  by (cases ff; simp add: apply_force_cotton_frame apply_force_silk_def apply_force_denim_def Let_def)+

lemma solve_constraint_cotton_frame:
  "current_material (solve_constraint_cotton F a b r g) = current_material g"
  "constraints (solve_constraint_cotton F a b r g) = constraints g"
  by (simp_all add: solve_constraint_cotton_def Let_def)

lemma call_ConstraintFunction_frame:
  "current_material (call_ConstraintFunction F cf a b r g) = current_material g"
  "constraints (call_ConstraintFunction F cf a b r g) = constraints g"
  by (cases cf; simp add: solve_constraint_cotton_frame solve_constraint_silk_def solve_constraint_denim_def)+

lemma mouse_snap_frame:
  "current_material (mouse_snap F k g) = current_material g"
  "constraints (mouse_snap F k g) = constraints g"
  by (simp_all add: mouse_snap_def Let_def)

lemma mouse_loop_frame:
  "current_material (mouse_loop F k g) = current_material g \<and>
   constraints (mouse_loop F k g) = constraints g"
proof (induction F k g rule: mouse_loop.induct)
  case (1 F k g)
  show ?case
  proof (cases "k < GRID_WIDTH * GRID_HEIGHT")
    case True
    with "1.IH" show ?thesis
      by (subst (1 2) mouse_loop.simps) (simp add: mouse_snap_frame)
  next
    case False
    then show ?thesis by (subst (1 2) mouse_loop.simps) simp
  qed
qed

lemma handle_mouse_interaction_frame:
  "current_material (handle_mouse_interaction F g) = current_material g"
  "constraints (handle_mouse_interaction F g) = constraints g"
  by (simp_all add: handle_mouse_interaction_def mouse_loop_frame)

lemma force_loop_fold:
  "force_loop F dt k g =
   fold (\<lambda>i. call_ForceFunction F (apply_force (current_material g)) i dt)
     [k..<GRID_WIDTH * GRID_HEIGHT] g"
proof (induction F dt k g rule: force_loop.induct)
  case (1 F dt k g)
  show ?case
  proof (cases "k < GRID_WIDTH * GRID_HEIGHT")
    case True
    then have u: "[k..<GRID_WIDTH * GRID_HEIGHT] = k # [k + 1..<GRID_WIDTH * GRID_HEIGHT]"
      by (simp add: upt_conv_Cons)
    show ?thesis
      using "1.IH" [OF True] True
      by (subst force_loop.simps) (simp add: upt_conv_Cons call_ForceFunction_frame)
  next
    case False
    then show ?thesis by (subst force_loop.simps) simp
  qed
qed

lemma force_loop_frame:
  "current_material (force_loop F dt k g) = current_material g \<and>
   constraints (force_loop F dt k g) = constraints g"
proof (induction F dt k g rule: force_loop.induct)
  case (1 F dt k g)
  show ?case
  proof (cases "k < GRID_WIDTH * GRID_HEIGHT")
    case True
    with "1.IH" show ?thesis
      by (subst (1 2) force_loop.simps) (simp add: call_ForceFunction_frame)
  next
    case False
    then show ?thesis by (subst (1 2) force_loop.simps) simp
  qed
qed

lemma constraint_loop_frame:
  "current_material (constraint_loop F k g) = current_material g \<and>
   constraints (constraint_loop F k g) = constraints g"
proof (induction F k g rule: constraint_loop.induct)
  case (1 F k g)
  show ?case
  proof (cases "k < (GRID_WIDTH - 1) * GRID_HEIGHT + GRID_WIDTH * (GRID_HEIGHT - 1)")
    case True
    with "1.IH" show ?thesis
      by (subst (1 2) constraint_loop.simps) (simp add: call_ConstraintFunction_frame Let_def)
  next
    case False
    then show ?thesis by (subst (1 2) constraint_loop.simps) simp
  qed
qed

lemma constraint_loop_fold:
  "constraint_loop F k g =
   fold (\<lambda>i. call_ConstraintFunction F (solve_constraint (current_material g))
               (p1 (constraints g i)) (p2 (constraints g i)) (rest_length (constraints g i)))
     [k..<(GRID_WIDTH - 1) * GRID_HEIGHT + GRID_WIDTH * (GRID_HEIGHT - 1)] g"
proof (induction F k g rule: constraint_loop.induct)
  case (1 F k g)
  let ?n = "(GRID_WIDTH - 1) * GRID_HEIGHT + GRID_WIDTH * (GRID_HEIGHT - 1)"
  show ?case
  proof (cases "k < ?n")
    case True
    then have u: "[k..<?n] = k # [k + 1..<?n]"
      by (simp add: upt_conv_Cons)
    show ?thesis
      using "1.IH" [OF True] True
      by (subst constraint_loop.simps) (simp add: upt_conv_Cons call_ConstraintFunction_frame Let_def)
  next
    case False
    then show ?thesis by (subst constraint_loop.simps) simp
  qed
qed

lemma relax_loop_funpow: "relax_loop F j g = (constraint_loop F 0 ^^ (5 - j)) g"
proof (induction F j g rule: relax_loop.induct)
  case (1 F j g)
  show ?case
  proof (cases "j < 5")
    case True
    then have s: "5 - j = Suc (5 - (j + 1))" by simp
    have "relax_loop F j g = relax_loop F (j + 1) (constraint_loop F 0 g)"
      using True by (subst relax_loop.simps) simp
    also have "\<dots> = (constraint_loop F 0 ^^ (5 - (j + 1))) (constraint_loop F 0 g)"
      using "1.IH" [OF True] .
    also have "\<dots> = (constraint_loop F 0 ^^ (5 - j)) g"
      by (simp only: s funpow_Suc_right o_apply)
    finally show ?thesis .
  next
    case False
    then show ?thesis by (subst relax_loop.simps) simp
  qed
qed

lemma relax_loop_unfold:
  "relax_loop F 0 g =
   constraint_loop F 0 (constraint_loop F 0 (constraint_loop F 0
     (constraint_loop F 0 (constraint_loop F 0 g))))"
  by (simp add: relax_loop_funpow eval_nat_numeral)

text \<open>
  C4. One physics update, for every time delta, pointer state and active material, is
  the following sequence and nothing else: the force function of the active material
  called on the particles \<open>0, 1, \<dots>\<close> of the grid in that order; then the pointer
  interaction; then five relaxation passes, each of which calls the constraint function
  of the active material once on every constraint \<open>0, 1, \<dots>\<close> of the constraint array, in
  the order of the array, with the two particle pointers and the rest length stored in
  that constraint. The active material and the constraint array are those at the start
  of the update: no call changes them. (\<open>fold f [a, b, c] s = f c (f b (f a s))\<close>.)
\<close>

theorem update_physics_order:
  "update_physics F dt g =
     (let m = current_material g;
          cs = constraints g;
          force_pass = fold (\<lambda>i. call_ForceFunction F (apply_force m) i dt)
                         [0..<GRID_WIDTH * GRID_HEIGHT];
          relaxation_pass =
            fold (\<lambda>i. call_ConstraintFunction F (solve_constraint m)
                         (p1 (cs i)) (p2 (cs i)) (rest_length (cs i)))
              [0..<(GRID_WIDTH - 1) * GRID_HEIGHT + GRID_WIDTH * (GRID_HEIGHT - 1)]
      in relaxation_pass (relaxation_pass (relaxation_pass (relaxation_pass (relaxation_pass
           (handle_mouse_interaction F (force_pass g)))))))"
proof -
  let ?m = "current_material g" and ?cs = "constraints g"
  let ?pass = "fold (\<lambda>i. call_ConstraintFunction F (solve_constraint ?m)
                         (p1 (?cs i)) (p2 (?cs i)) (rest_length (?cs i)))
              [0..<(GRID_WIDTH - 1) * GRID_HEIGHT + GRID_WIDTH * (GRID_HEIGHT - 1)]"
  have pass: "constraint_loop F 0 h = ?pass h"
    if "current_material h = ?m" "constraints h = ?cs" for h
    using that by (simp add: constraint_loop_fold)
  have keep: "current_material (?pass h) = ?m \<and> constraints (?pass h) = ?cs"
    if "current_material h = ?m" "constraints h = ?cs" for h
    using that pass [OF that] constraint_loop_frame [of F 0 h] by simp
  let ?g2 = "handle_mouse_interaction F (force_loop F dt 0 g)"
  have g2: "current_material ?g2 = ?m" "constraints ?g2 = ?cs"
    by (simp_all add: handle_mouse_interaction_frame force_loop_frame)
  have "relax_loop F 0 ?g2 = ?pass (?pass (?pass (?pass (?pass ?g2))))"
    using g2 keep pass by (simp add: relax_loop_unfold)
  then show ?thesis
    by (simp add: update_physics_def Let_def force_loop_fold)
qed

subsection \<open>Initialisation\<close>

lemma init_particle_frame:
  "current_material (init_particle F sx sy iy ix g) = current_material g"
  "constraints (init_particle F sx sy iy ix g) = constraints g"
  "mouse (init_particle F sx sy iy ix g) = mouse g"
  "mouse_down (init_particle F sx sy iy ix g) = mouse_down g"
  "right_click (init_particle F sx sy iy ix g) = right_click g"
  by (simp_all add: init_particle_def Let_def)

lemma init_particle_at:
  "particles (init_particle F sx sy iy ix g) j =
     (if j = iy * GRID_WIDTH + ix
      then seeded_particle F sx sy (Material.mass (current_material g)) iy ix
      else particles g j)"
  by (simp add: init_particle_def seeded_particle_def Let_def)

lemma init_particles_x_frame:
  "current_material (init_particles_x F sx sy iy ix g) = current_material g"
proof (induction F sx sy iy ix g rule: init_particles_x.induct)
  case (1 F sx sy iy ix g)
  show ?case
  proof (cases "ix < GRID_WIDTH")
    case True
    with "1.IH" show ?thesis
      by (subst init_particles_x.simps) (simp add: init_particle_frame)
  next
    case False
    then show ?thesis by (subst init_particles_x.simps) simp
  qed
qed

lemma init_particles_x_at:
  "particles (init_particles_x F sx sy iy ix g) j =
     (if iy * GRID_WIDTH + ix \<le> j \<and> j < iy * GRID_WIDTH + GRID_WIDTH
      then seeded_particle F sx sy (Material.mass (current_material g)) iy (j - iy * GRID_WIDTH)
      else particles g j)"
proof (induction F sx sy iy ix g rule: init_particles_x.induct)
  case (1 F sx sy iy ix g)
  show ?case
  proof (cases "ix < GRID_WIDTH")
    case True
    have "particles (init_particles_x F sx sy iy ix g) j
          = particles (init_particles_x F sx sy iy (ix + 1) (init_particle F sx sy iy ix g)) j"
      using True by (subst init_particles_x.simps) simp
    also have "\<dots> =
      (if iy * GRID_WIDTH + (ix + 1) \<le> j \<and> j < iy * GRID_WIDTH + GRID_WIDTH
       then seeded_particle F sx sy (Material.mass (current_material g)) iy (j - iy * GRID_WIDTH)
       else particles (init_particle F sx sy iy ix g) j)"
      using "1.IH" [OF True] by (simp add: init_particle_frame)
    also have "\<dots> =
      (if iy * GRID_WIDTH + ix \<le> j \<and> j < iy * GRID_WIDTH + GRID_WIDTH
       then seeded_particle F sx sy (Material.mass (current_material g)) iy (j - iy * GRID_WIDTH)
       else particles g j)"
      using True by (auto simp add: init_particle_at)
    finally show ?thesis .
  next
    case False
    then show ?thesis by (subst init_particles_x.simps) auto
  qed
qed

lemma row_div_mod:
  fixes j iy :: nat
  assumes "iy * 50 \<le> j" "j < iy * 50 + 50"
  shows "j div 50 = iy" "j mod 50 = j - iy * 50"
proof -
  from assms obtain c where c: "j = c + iy * 50" "c < 50"
    by (metis add.commute le_Suc_ex nat_add_left_cancel_less)
  show "j div 50 = iy" using c by simp
  show "j mod 50 = j - iy * 50" using c by simp
qed

lemma init_particles_y_at:
  "particles (init_particles_y F sx sy iy g) j =
     (if iy * GRID_WIDTH \<le> j \<and> j < GRID_HEIGHT * GRID_WIDTH
      then seeded_particle F sx sy (Material.mass (current_material g))
             (j div GRID_WIDTH) (j mod GRID_WIDTH)
      else particles g j)"
proof (induction F sx sy iy g rule: init_particles_y.induct)
  case (1 F sx sy iy g)
  let ?g = "init_particles_x F sx sy iy 0 g"
  show ?case
  proof (cases "iy < GRID_HEIGHT")
    case True
    have "particles (init_particles_y F sx sy iy g) j
          = particles (init_particles_y F sx sy (iy + 1) ?g) j"
      using True by (subst init_particles_y.simps) simp
    also have "\<dots> =
      (if (iy + 1) * GRID_WIDTH \<le> j \<and> j < GRID_HEIGHT * GRID_WIDTH
       then seeded_particle F sx sy (Material.mass (current_material g))
              (j div GRID_WIDTH) (j mod GRID_WIDTH)
       else particles ?g j)"
      using "1.IH" [OF True] by (simp add: init_particles_x_frame)
    also have "\<dots> =
      (if iy * GRID_WIDTH \<le> j \<and> j < GRID_HEIGHT * GRID_WIDTH
       then seeded_particle F sx sy (Material.mass (current_material g))
              (j div GRID_WIDTH) (j mod GRID_WIDTH)
       else particles g j)"
    proof (cases "iy * GRID_WIDTH \<le> j \<and> j < iy * GRID_WIDTH + GRID_WIDTH")
      case row: True
      then have d: "j div GRID_WIDTH = iy" and m: "j mod GRID_WIDTH = j - iy * GRID_WIDTH"
        using row_div_mod [of iy j] by (simp_all add: GRID_WIDTH_def)
      have "iy * GRID_WIDTH + GRID_WIDTH \<le> GRID_HEIGHT * GRID_WIDTH"
        using True by (simp add: GRID_WIDTH_def GRID_HEIGHT_def)
      with row have "j < GRID_HEIGHT * GRID_WIDTH" by simp
      with row show ?thesis by (simp add: init_particles_x_at d m)
    next
      case False
      then show ?thesis by (auto simp add: init_particles_x_at)
    qed
    finally show ?thesis .
  next
    case False
    then have le: "GRID_HEIGHT * GRID_WIDTH \<le> iy * GRID_WIDTH" by simp
    have "init_particles_y F sx sy iy g = g"
      using False by (subst init_particles_y.simps) simp
    moreover have "\<not> (iy * GRID_WIDTH \<le> j \<and> j < GRID_HEIGHT * GRID_WIDTH)"
      using le by linarith
    ultimately show ?thesis by (simp only: if_False)
  qed
qed

lemma init_particles_at:
  "particles (init_particles F g) j =
     (if j < GRID_HEIGHT * GRID_WIDTH
      then seeded_particle F (float_of_int F 32) (float_of_int F 41)
             (Material.mass (current_material g)) (j div GRID_WIDTH) (j mod GRID_WIDTH)
      else particles g j)"
  by (simp add: init_particles_def init_particles_y_at
      SCREEN_WIDTH_def SCREEN_HEIGHT_def GRID_WIDTH_def GRID_HEIGHT_def PARTICLE_SPACING_def)


text \<open>
  C6, as the code has it. \<^verbatim>\<open>init_particles\<close> fills the array in row-major order: for
  every row below \<open>GRID_HEIGHT\<close> and column below \<open>GRID_WIDTH\<close>, the particle at index
  \<open>row * GRID_WIDTH + col\<close> is at \<open>(start_x + col * spacing, start_y + row * spacing)\<close>,
  its previous position is the same point, its velocity and force are zero, its mass is
  the mass of the active material, its material pointer is the address of the active
  material, and it is locked exactly when \<open>row = 0\<close>. The start coordinates are integers:
  \<open>start_x\<close> is half of the free width, rounded down (\<open>32\<close>: the grid is centred
  horizontally up to that rounding), and \<open>start_y\<close> is a quarter of the free height,
  rounded down (\<open>41\<close>: the grid sits in the upper part of the canvas). This holds for
  every arithmetic of \<^verbatim>\<open>float\<close>.
\<close>

theorem init_particles_grid:
  assumes "row < GRID_HEIGHT" and "col < GRID_WIDTH"
  shows "particles (init_particles F g) (row * GRID_WIDTH + col) =
       \<lparr>Particle.x =
          float_of_int F ((int SCREEN_WIDTH - (int GRID_WIDTH - 1) * int PARTICLE_SPACING) div 2)
          + float_of_int F (int col * int PARTICLE_SPACING),
        Particle.y =
          float_of_int F ((int SCREEN_HEIGHT - (int GRID_HEIGHT - 1) * int PARTICLE_SPACING) div 4)
          + float_of_int F (int row * int PARTICLE_SPACING),
        old_x =
          float_of_int F ((int SCREEN_WIDTH - (int GRID_WIDTH - 1) * int PARTICLE_SPACING) div 2)
          + float_of_int F (int col * int PARTICLE_SPACING),
        old_y =
          float_of_int F ((int SCREEN_HEIGHT - (int GRID_HEIGHT - 1) * int PARTICLE_SPACING) div 4)
          + float_of_int F (int row * int PARTICLE_SPACING),
        vx = float_of_int F 0, vy = float_of_int F 0,
        force_x = float_of_int F 0, force_y = float_of_int F 0,
        Particle.mass = Material.mass (current_material g),
        locked = (row = 0),
        neighbors = [], num_neighbors = 0,
        material = Addr_current_material\<rparr>
     \<and> (int SCREEN_WIDTH - (int GRID_WIDTH - 1) * int PARTICLE_SPACING) div 2 = 32
     \<and> (int SCREEN_HEIGHT - (int GRID_HEIGHT - 1) * int PARTICLE_SPACING) div 4 = 41"
proof -
  let ?j = "row * GRID_WIDTH + col"
  have "row * GRID_WIDTH + GRID_WIDTH \<le> GRID_HEIGHT * GRID_WIDTH"
    using assms(1) by (simp add: GRID_WIDTH_def GRID_HEIGHT_def)
  with assms(2) have lt: "?j < GRID_HEIGHT * GRID_WIDTH" by simp
  have d: "?j div GRID_WIDTH = row" and m: "?j mod GRID_WIDTH = col"
    using assms(2) by simp_all
  have "particles (init_particles F g) ?j =
        seeded_particle F (float_of_int F 32) (float_of_int F 41)
          (Material.mass (current_material g)) row col"
    using lt d m by (simp only: init_particles_at if_True)
  then show ?thesis
    by (simp add: seeded_particle_def
        SCREEN_WIDTH_def SCREEN_HEIGHT_def GRID_WIDTH_def GRID_HEIGHT_def PARTICLE_SPACING_def)
qed

theorem init_particles_grid_witness:
  "(2::nat) < GRID_HEIGHT \<and> (3::nat) < GRID_WIDTH
   \<and> particles (init_particles real_fpu sample_globals) 103 =
       \<lparr>Particle.x = 77, Particle.y = 71, old_x = 77, old_y = 71,
        vx = 0, vy = 0, force_x = 0, force_y = 0,
        Particle.mass = 1, locked = False, neighbors = [], num_neighbors = 0,
        material = Addr_current_material\<rparr>"
proof -
  have r: "(2::nat) < GRID_HEIGHT" and c: "(3::nat) < GRID_WIDTH"
    by (simp_all add: GRID_WIDTH_def GRID_HEIGHT_def)
  have j: "2 * GRID_WIDTH + 3 = 103" by (simp add: GRID_WIDTH_def)
  show ?thesis
    using init_particles_grid [OF r c, of real_fpu sample_globals] r c
    by (simp add: j real_fpu_def sample_globals_def COTTON_def
        SCREEN_WIDTH_def SCREEN_HEIGHT_def GRID_WIDTH_def GRID_HEIGHT_def PARTICLE_SPACING_def)
qed

text \<open>
  The grid is not centred vertically: after initialisation the top row is at \<open>y = 41\<close>
  and the bottom row at \<open>y = 476\<close>, which leaves \<open>41\<close> above the grid and \<open>124\<close> below it
  in a canvas of height \<open>600\<close>.
\<close>

theorem init_particles_not_centred:
  "(let g = init_particles real_fpu sample_globals;
        top = Particle.y (particles g 0);
        bottom = Particle.y (particles g ((GRID_HEIGHT - 1) * GRID_WIDTH))
    in top = 41 \<and> bottom = 476 \<and> top - 0 \<noteq> real SCREEN_HEIGHT - bottom)"
  by (simp add: Let_def init_particles_at seeded_particle_def real_fpu_def
      SCREEN_HEIGHT_def GRID_WIDTH_def GRID_HEIGHT_def PARTICLE_SPACING_def)

subsection \<open>Switching the material\<close>

text \<open>
  C7. From a state whose active material is cotton, the key presses that select denim,
  then silk, then cotton again, with nothing in between, lead back to the very same
  state of the globals. So whatever is computed next is what the state that stayed with
  cotton computes: the force function called through the active material is the cotton
  rule on the original state, likewise the constraint function, and a whole physics
  update gives the same result, for every particle, time delta and constraint. This
  holds for every arithmetic of \<^verbatim>\<open>float\<close>.
\<close>

theorem material_round_trip:
  assumes "current_material g = COTTON F"
  shows "(let g' = fst (poll_events F [SDL_KEYDOWN SDLK_3, SDL_KEYDOWN SDLK_2, SDL_KEYDOWN SDLK_1]
                     (g, running))
          in g' = g
           \<and> call_ForceFunction F (apply_force (current_material g')) i dt g'
               = apply_force_cotton F i dt g
           \<and> call_ConstraintFunction F (solve_constraint (current_material g')) a b rest g'
               = solve_constraint_cotton F a b rest g
           \<and> update_physics F dt g' = update_physics F dt g)"
proof -
  have rt: "fst (poll_events F [SDL_KEYDOWN SDLK_3, SDL_KEYDOWN SDLK_2, SDL_KEYDOWN SDLK_1]
                (g, running)) = g"
    using assms [symmetric] by simp
  have "apply_force (current_material g) = Ptr_apply_force_cotton"
    and "solve_constraint (current_material g) = Ptr_solve_constraint_cotton"
    by (simp_all add: assms COTTON_def)
  then show ?thesis
    by (simp only: rt Let_def call_ForceFunction.simps call_ConstraintFunction.simps simp_thms)
qed

theorem material_round_trip_witness:
  "current_material sample_globals = COTTON real_fpu
   \<and> fst (poll_events real_fpu [SDL_KEYDOWN SDLK_3, SDL_KEYDOWN SDLK_2, SDL_KEYDOWN SDLK_1]
        (sample_globals, True)) = sample_globals
   \<and> current_material (fst (poll_events real_fpu [SDL_KEYDOWN SDLK_3, SDL_KEYDOWN SDLK_2]
        (sample_globals, True))) = SILK real_fpu"
proof -
  have c: "current_material sample_globals = COTTON real_fpu"
    by (simp add: sample_globals_def)
  have "fst (poll_events real_fpu [SDL_KEYDOWN SDLK_3, SDL_KEYDOWN SDLK_2, SDL_KEYDOWN SDLK_1]
        (sample_globals, True)) = sample_globals"
    using material_round_trip [OF c, of True] by (simp only: Let_def)
  moreover have "current_material (fst (poll_events real_fpu [SDL_KEYDOWN SDLK_3, SDL_KEYDOWN SDLK_2]
        (sample_globals, True))) = SILK real_fpu"
    by simp
  ultimately show ?thesis using c by simp
qed

subsection \<open>Particles at rest\<close>

text \<open>
  The field \<^verbatim>\<open>mass\<close> of a particle is written by \<^verbatim>\<open>init_particles\<close> and by nothing else:
  every particle of the grid carries the mass of the material that was active at
  initialisation (\<^verbatim>\<open>1.0f\<close>, cotton, in the program), in every later frame.
\<close>

lemma apply_force_cotton_mass:
  "Particle.mass (particles (apply_force_cotton F k dt g) j) = Particle.mass (particles g j)"
  by (simp add: apply_force_cotton_def Let_def)

lemma call_ForceFunction_mass:
  "Particle.mass (particles (call_ForceFunction F ff k dt g) j) = Particle.mass (particles g j)"
  by (cases ff)
    (simp_all add: apply_force_silk_def apply_force_denim_def Let_def apply_force_cotton_mass)

lemma call_ConstraintFunction_mass:
  "Particle.mass (particles (call_ConstraintFunction F cf a b r g) j) = Particle.mass (particles g j)"
  by (cases cf)
    (simp_all add: solve_constraint_silk_def solve_constraint_denim_def
      solve_constraint_cotton_def Let_def)

lemma mouse_snap_mass:
  "Particle.mass (particles (mouse_snap F k g) j) = Particle.mass (particles g j)"
  by (simp add: mouse_snap_def Let_def)

lemma force_loop_mass:
  "Particle.mass (particles (force_loop F dt k g) j) = Particle.mass (particles g j)"
proof (induction F dt k g rule: force_loop.induct)
  case (1 F dt k g)
  show ?case
  proof (cases "k < GRID_WIDTH * GRID_HEIGHT")
    case True
    with "1.IH" show ?thesis
      by (subst force_loop.simps) (simp add: call_ForceFunction_mass)
  next
    case False
    then show ?thesis by (subst force_loop.simps) simp
  qed
qed

lemma mouse_loop_mass:
  "Particle.mass (particles (mouse_loop F k g) j) = Particle.mass (particles g j)"
proof (induction F k g rule: mouse_loop.induct)
  case (1 F k g)
  show ?case
  proof (cases "k < GRID_WIDTH * GRID_HEIGHT")
    case True
    with "1.IH" show ?thesis
      by (subst mouse_loop.simps) (simp add: mouse_snap_mass)
  next
    case False
    then show ?thesis by (subst mouse_loop.simps) simp
  qed
qed

lemma constraint_loop_mass:
  "Particle.mass (particles (constraint_loop F k g) j) = Particle.mass (particles g j)"
proof (induction F k g rule: constraint_loop.induct)
  case (1 F k g)
  show ?case
  proof (cases "k < (GRID_WIDTH - 1) * GRID_HEIGHT + GRID_WIDTH * (GRID_HEIGHT - 1)")
    case True
    with "1.IH" show ?thesis
      by (subst constraint_loop.simps) (simp add: call_ConstraintFunction_mass Let_def)
  next
    case False
    then show ?thesis by (subst constraint_loop.simps) simp
  qed
qed

lemma relax_loop_mass:
  "Particle.mass (particles (relax_loop F k g) j) = Particle.mass (particles g j)"
proof (induction F k g rule: relax_loop.induct)
  case (1 F k g)
  show ?case
  proof (cases "k < 5")
    case True
    with "1.IH" show ?thesis
      by (subst relax_loop.simps) (simp add: constraint_loop_mass)
  next
    case False
    then show ?thesis by (subst relax_loop.simps) simp
  qed
qed

lemma update_physics_mass:
  "Particle.mass (particles (update_physics F dt g) j) = Particle.mass (particles g j)"
  by (simp add: update_physics_def Let_def relax_loop_mass handle_mouse_interaction_def
      mouse_loop_mass force_loop_mass)

lemma main_loop_mass:
  "Particle.mass (particles (main_loop F frames g) j) = Particle.mass (particles g j)"
proof (induction frames arbitrary: g)
  case Nil
  show ?case by simp
next
  case (Cons fr frames)
  obtain evs dt where fr: "fr = (evs, dt)" by (cases fr)
  obtain g1 running where pe: "poll_events F evs (g, True) = (g1, running)"
    by (cases "poll_events F evs (g, True)")
  have "particles g1 = particles g"
    using poll_events_particles [of F evs "(g, True)"] pe by simp
  then show ?case
    using Cons.IH [of "update_physics F dt g1"]
    by (simp add: fr pe Let_def update_physics_mass)
qed

lemma program_particle_mass:
  "j < GRID_HEIGHT * GRID_WIDTH \<Longrightarrow>
   Particle.mass (particles (main_loop F frames (init_particles F g)) j)
     = Material.mass (current_material g)"
  by (simp add: main_loop_mass init_particles_at seeded_particle_def)

lemma apply_force_cotton_traced_state:
  "fst (apply_force_cotton_traced F i dt g) = apply_force_cotton F i dt g"
  by (simp add: apply_force_cotton_traced_def apply_force_cotton_def logged_div_def Let_def)

text \<open>
  C8. Write \<open>0\<close> for the \<^verbatim>\<open>float\<close> that the integer \<^verbatim>\<open>0\<close> converts to. In every arithmetic
  of \<^verbatim>\<open>float\<close> in which \<open>0 * 0 = 0\<close>, \<open>0 + 0 = 0\<close>, \<open>sqrtf 0 = 0\<close> and \<open>0 < 0\<close> is false (the
  reals, and binary floating point), a particle whose stored velocity is \<open>(0, 0)\<close> has
  speed \<open>0\<close>, the test \<^verbatim>\<open>speed > 0\<close> fails and \<^verbatim>\<open>apply_force_cotton\<close> skips the drag
  branch: the force it stores is \<open>(0, 980 * mass)\<close> with no drag term, and the divisions
  it executes are the two by \<^verbatim>\<open>p->mass\<close> and the two by \<^verbatim>\<open>dt\<close>, none by the speed. With
  \<open>dt > 0\<close>, and the mass not zero as it is for every particle of the program, no divisor
  is zero. The traced function computes the state that \<^verbatim>\<open>apply_force_cotton\<close> computes.
\<close>

theorem zero_velocity_no_division_by_zero:
  fixes F :: "('f::{plus,minus,times,inverse,ord}) fpu"
  assumes "float_of_int F 0 * float_of_int F 0 = float_of_int F 0"
    and "float_of_int F 0 + float_of_int F 0 = float_of_int F 0"
    and "sqrtf F (float_of_int F 0) = float_of_int F 0"
    and "\<not> float_of_int F 0 < float_of_int F 0"
    and "vx (particles g i) = float_of_int F 0" and "vy (particles g i) = float_of_int F 0"
    and "float_of_int F 0 < dt"
    and "Particle.mass (particles g i) \<noteq> float_of_int F 0"
  shows "fst (apply_force_cotton_traced F i dt g) = apply_force_cotton F i dt g
       \<and> snd (apply_force_cotton_traced F i dt g) =
           (if locked (particles g i) then []
            else [Particle.mass (particles g i), Particle.mass (particles g i), dt, dt])
       \<and> float_of_int F 0 \<notin> set (snd (apply_force_cotton_traced F i dt g))
       \<and> force_x (particles (apply_force_cotton F i dt g) i) =
           (if locked (particles g i) then force_x (particles g i) else float_of_int F 0)
       \<and> force_y (particles (apply_force_cotton F i dt g) i) =
           (if locked (particles g i) then force_y (particles g i)
            else float_lit F 980 * Particle.mass (particles g i))"
proof -
  have dt: "dt \<noteq> float_of_int F 0" using assms(4,7) by auto
  have speed: "\<not> float_of_int F 0 <
      sqrtf F (vx (particles g i) * vx (particles g i) + vy (particles g i) * vy (particles g i))"
    by (simp only: assms(1-6) not_False_eq_True)
  have tr: "snd (apply_force_cotton_traced F i dt g) =
           (if locked (particles g i) then []
            else [Particle.mass (particles g i), Particle.mass (particles g i), dt, dt])"
    using speed by (simp add: apply_force_cotton_traced_def logged_div_def Let_def)
  have nz: "float_of_int F 0 \<notin> set (snd (apply_force_cotton_traced F i dt g))"
    using dt assms(8) by (auto simp add: tr)
  have fx: "force_x (particles (apply_force_cotton F i dt g) i) =
           (if locked (particles g i) then force_x (particles g i) else float_of_int F 0)"
    using speed by (simp add: apply_force_cotton_def Let_def)
  have fy: "force_y (particles (apply_force_cotton F i dt g) i) =
           (if locked (particles g i) then force_y (particles g i)
            else float_lit F 980 * Particle.mass (particles g i))"
    using speed by (simp add: apply_force_cotton_def Let_def)
  show ?thesis
    using apply_force_cotton_traced_state [of F i dt g] tr nz fx fy by blast
qed


theorem zero_velocity_no_division_by_zero_witness:
  "(0::real) * 0 = 0 \<and> (0::real) + 0 = 0 \<and> sqrt 0 = 0 \<and> \<not> (0::real) < 0
   \<and> vx (particles (init_particles real_fpu sample_globals) 103) = 0
   \<and> vy (particles (init_particles real_fpu sample_globals) 103) = 0
   \<and> (0::real) < 1 / 60
   \<and> Particle.mass (particles (init_particles real_fpu sample_globals) 103) \<noteq> 0
   \<and> \<not> locked (particles (init_particles real_fpu sample_globals) 103)
   \<and> snd (apply_force_cotton_traced real_fpu 103 (1 / 60) (init_particles real_fpu sample_globals))
       = [1, 1, 1 / 60, 1 / 60]
   \<and> force_y (particles (apply_force_cotton real_fpu 103 (1 / 60)
         (init_particles real_fpu sample_globals)) 103) = 980"
proof -
  let ?g = "init_particles real_fpu sample_globals"
  have p: "particles ?g 103 =
       seeded_particle real_fpu 32 41 1 2 3"
    by (simp add: init_particles_at GRID_WIDTH_def GRID_HEIGHT_def real_fpu_def
        sample_globals_def COTTON_def)
  have z: "float_of_int real_fpu 0 = 0" by (simp add: real_fpu_def)
  have sq: "sqrtf real_fpu 0 = 0" by (simp add: real_fpu_def)
  have h: "float_of_int real_fpu 0 * float_of_int real_fpu 0 = float_of_int real_fpu 0"
    "float_of_int real_fpu 0 + float_of_int real_fpu 0 = float_of_int real_fpu 0"
    "sqrtf real_fpu (float_of_int real_fpu 0) = float_of_int real_fpu 0"
    "\<not> float_of_int real_fpu 0 < float_of_int real_fpu 0"
    "vx (particles ?g 103) = float_of_int real_fpu 0"
    "vy (particles ?g 103) = float_of_int real_fpu 0"
    "float_of_int real_fpu 0 < 1 / 60"
    "Particle.mass (particles ?g 103) \<noteq> float_of_int real_fpu 0"
    by (simp_all add: z sq p seeded_particle_def)
  have u: "\<not> locked (particles ?g 103)" "Particle.mass (particles ?g 103) = 1"
    by (simp_all add: p seeded_particle_def)
  have l: "float_lit real_fpu 980 = 980" by (simp add: real_fpu_def)
  from zero_velocity_no_division_by_zero [OF h]
  have "snd (apply_force_cotton_traced real_fpu 103 (1 / 60) ?g) = [1, 1, 1 / 60, 1 / 60]"
    and "force_y (particles (apply_force_cotton real_fpu 103 (1 / 60) ?g) 103) = 980"
    by (simp_all only: u l if_False mult_1_right)
  with h u show ?thesis by (simp add: z)
qed

subsection \<open>Symmetry of the cotton constraint rule\<close>

lemma solve_constraint_cotton_distinct:
  assumes "a \<noteq> b"
  shows "solve_constraint_cotton F a b rest g =
     (let pa = particles g a;
          pb = particles g b;
          dx = Particle.x pb - Particle.x pa;
          dy = Particle.y pb - Particle.y pa;
          dist = sqrtf F (dx * dx + dy * dy);
          diff = (dist - rest) / dist;
          ea = elasticity (current_material g);
          eb = elasticity (current_material g)
      in if float_lit F (1 / 10000) < dist then
           g\<lparr>particles := (particles g)
             (a := (if locked pa then pa
                    else pa\<lparr>Particle.x := Particle.x pa + dx * diff * float_lit F (1 / 2) * ea,
                            Particle.y := Particle.y pa + dy * diff * float_lit F (1 / 2) * ea\<rparr>),
              b := (if locked pb then pb
                    else pb\<lparr>Particle.x := Particle.x pb - dx * diff * float_lit F (1 / 2) * eb,
                            Particle.y := Particle.y pb - dy * diff * float_lit F (1 / 2) * eb\<rparr>))\<rparr>
         else g)"
  using assms by (simp add: solve_constraint_cotton_def Let_def deref_material_eq fun_upd_idem)

text \<open>
  C9. The cotton constraint rule does not depend on the order of its two particle
  pointers: for all pointers, rest lengths and states,
  \<^verbatim>\<open>solve_constraint_cotton(p1, p2, rest)\<close> and \<^verbatim>\<open>solve_constraint_cotton(p2, p1, rest)\<close>
  leave the same state, hence the same positions of both particles. This holds in every
  arithmetic of \<^verbatim>\<open>float\<close> whose negation satisfies the five sign laws \<open>u - v = - (v - u)\<close>,
  \<open>(- u) * v = - (u * v)\<close>, \<open>(- u) * (- v) = u * v\<close>, \<open>w + (- t) = w - t\<close> and
  \<open>w - (- t) = w + t\<close>; no other law of arithmetic is used, in particular none about
  rounding. The reals satisfy them, and so do the values of binary floating point with
  rounding to nearest, where the two zeros are one value. (Swapping the pointers
  negates the connecting vector; the distance and \<open>diff\<close> are the same, and adding the
  negated correction is subtracting the correction.)
\<close>

theorem solve_constraint_cotton_symmetric:
  fixes F :: "('f::{plus,minus,times,inverse,ord,uminus}) fpu"
  assumes L1: "\<And>u v :: 'f. u - v = - (v - u)"
    and L2: "\<And>u v :: 'f. (- u) * v = - (u * v)"
    and L3: "\<And>u v :: 'f. (- u) * (- v) = u * v"
    and L4: "\<And>w t :: 'f. w + (- t) = w - t"
    and L5: "\<And>w t :: 'f. w - (- t) = w + t"
  shows "solve_constraint_cotton F a b rest g = solve_constraint_cotton F b a rest g"
proof (cases "a = b")
  case True
  then show ?thesis by simp
next
  case False
  let ?pa = "particles g a" and ?pb = "particles g b"
  define xa ya xb yb where "xa = Particle.x ?pa" and "ya = Particle.y ?pa"
    and "xb = Particle.x ?pb" and "yb = Particle.y ?pb"
  define e where "e = elasticity (current_material g)"
  define h where "h = float_lit F (1 / 2)"
  define d where "d = sqrtf F ((xb - xa) * (xb - xa) + (yb - ya) * (yb - ya))"
  define d2 where "d2 = sqrtf F ((xa - xb) * (xa - xb) + (ya - yb) * (ya - yb))"
  define A where "A = (if locked ?pa then ?pa
     else ?pa\<lparr>Particle.x := xa + (xb - xa) * ((d - rest) / d) * h * e,
              Particle.y := ya + (yb - ya) * ((d - rest) / d) * h * e\<rparr>)"
  define B where "B = (if locked ?pb then ?pb
     else ?pb\<lparr>Particle.x := xb - (xb - xa) * ((d - rest) / d) * h * e,
              Particle.y := yb - (yb - ya) * ((d - rest) / d) * h * e\<rparr>)"
  define B2 where "B2 = (if locked ?pb then ?pb
     else ?pb\<lparr>Particle.x := xb + (xa - xb) * ((d2 - rest) / d2) * h * e,
              Particle.y := yb + (ya - yb) * ((d2 - rest) / d2) * h * e\<rparr>)"
  define A2 where "A2 = (if locked ?pa then ?pa
     else ?pa\<lparr>Particle.x := xa - (xa - xb) * ((d2 - rest) / d2) * h * e,
              Particle.y := ya - (ya - yb) * ((d2 - rest) / d2) * h * e\<rparr>)"
  have ab: "solve_constraint_cotton F a b rest g =
      (if float_lit F (1 / 10000) < d then g\<lparr>particles := (particles g)(a := A, b := B)\<rparr> else g)"
    unfolding solve_constraint_cotton_distinct [OF False]
    by (simp add: Let_def A_def B_def d_def xa_def ya_def xb_def yb_def e_def h_def)
  have ba: "solve_constraint_cotton F b a rest g =
      (if float_lit F (1 / 10000) < d2 then g\<lparr>particles := (particles g)(b := B2, a := A2)\<rparr> else g)"
    unfolding solve_constraint_cotton_distinct [OF False [symmetric]]
    by (simp add: Let_def A2_def B2_def d2_def xa_def ya_def xb_def yb_def e_def h_def)
  have mx: "xa - xb = - (xb - xa)" and my: "ya - yb = - (yb - ya)"
    by (rule L1)+
  have dd: "d2 = d" by (simp only: d_def d2_def mx my L3)
  have AA: "A2 = A" by (simp only: A2_def A_def dd mx my L2 L5)
  have BB: "B2 = B" by (simp only: B2_def B_def dd mx my L2 L4)
  show ?thesis
    by (simp only: ab ba dd AA BB fun_upd_twist [OF False])
qed

theorem solve_constraint_cotton_symmetric_witness:
  "(\<forall>u v :: real. u - v = - (v - u))
   \<and> (\<forall>u v :: real. (- u) * v = - (u * v))
   \<and> (\<forall>u v :: real. (- u) * (- v) = u * v)
   \<and> (\<forall>w t :: real. w + (- t) = w - t)
   \<and> (\<forall>w t :: real. w - (- t) = w + t)
   \<and> solve_constraint_cotton real_fpu 0 1 15 sample_globals
       = solve_constraint_cotton real_fpu 1 0 15 sample_globals"
proof -
  have "solve_constraint_cotton real_fpu 0 1 15 sample_globals
        = solve_constraint_cotton real_fpu 1 0 15 sample_globals"
    by (rule solve_constraint_cotton_symmetric) simp_all
  then show ?thesis by simp
qed

subsection \<open>Silk's constraint rule\<close>

text \<open>
  C10. Silk's \<^verbatim>\<open>solve_constraint_silk\<close> is cotton's rule and nothing more: on every
  pair of particle pointers, every rest length and every state of the globals the two
  functions leave the same state, so in particular the same positions of both
  particles. This holds for every arithmetic of \<^verbatim>\<open>float\<close>.
\<close>

theorem solve_constraint_silk_eq_cotton:
  "solve_constraint_silk F a b rest g = solve_constraint_cotton F a b rest g"
  by (simp add: solve_constraint_silk_def)

end
